theory Spec2Isabelle
  imports Complex_Main "HOL-Library.Sublist"
begin

section \<open>The ring viewer (src/src/RingViewer.jsx)\<close>

text \<open>
  The viewer is one React component over the three.js library. The embedding keeps the
  component's own code: the catalogs, \<open>pickRandom\<close>, \<open>disposeMaterial\<close>, the colour
  predicates, the mount effect, the two load callbacks, the animation step, the resize
  handler and the teardown. JavaScript numbers are modelled as real numbers (rounding is
  not modelled); a division whose divisor may be zero is written out with the values
  JavaScript gives. Objects of the library are records holding the fields the component
  reads or writes; a call of a library disposal routine is recorded in a log.
\<close>

subsection \<open>Catalogs\<close>

definition RING_MODELS :: "string list" where
  "RING_MODELS =
     [''/models/ring1.glb'', ''/models/ring2.glb'', ''/models/ring3.glb'',
      ''/models/ring4.glb'', ''/models/ring5.glb'', ''/models/ring6.glb'',
      ''/models/ring7.glb'', ''/models/ring8.glb'', ''/models/ring9.glb'',
      ''/models/ring10.glb'']"

record metal_preset =
  label :: string
  preset_color :: nat
  preset_roughness :: real
  envIntensity :: real

definition METALS :: "(string \<times> metal_preset) list" where
  "METALS =
     [(''yellow'', \<lparr>label = ''Yellow Gold'', preset_color = 0xe3bb5e, preset_roughness = 0.1, envIntensity = 2.2\<rparr>),
      (''white'', \<lparr>label = ''White Gold'', preset_color = 0xc2c2c3, preset_roughness = 0.1, envIntensity = 2.0\<rparr>),
      (''rose'', \<lparr>label = ''Rose Gold'', preset_color = 0xd9a483, preset_roughness = 0.1, envIntensity = 2.1\<rparr>)]"

definition METAL_KEYS :: "string list" where
  "METAL_KEYS = map fst METALS"

subsection \<open>Strings\<close>

text \<open>
  Mesh names are ASCII strings. \<open>toLowerCase\<close> maps \<open>A\<close>..\<open>Z\<close> to \<open>a\<close>..\<open>z\<close>;
  \<open>str_includes\<close> is JavaScript's String.prototype.includes: the pattern occurs as a
  contiguous run of characters.
\<close>

definition lower_char :: "char \<Rightarrow> char" where
  "lower_char c =
     (let k = (of_char c :: nat) in if 65 \<le> k \<and> k \<le> 90 then char_of (k + 32) else c)"

definition toLowerCase :: "string \<Rightarrow> string" where
  "toLowerCase s = map lower_char s"

fun starts_with :: "string \<Rightarrow> string \<Rightarrow> bool" where
  "starts_with s [] = True"
| "starts_with [] (p # ps) = False"
| "starts_with (c # cs) (p # ps) = (c = p \<and> starts_with cs ps)"

fun str_includes :: "string \<Rightarrow> string \<Rightarrow> bool" where
  "str_includes [] p = (p = [])"
| "str_includes (c # cs) p = (starts_with (c # cs) p \<or> str_includes cs p)"

subsection \<open>Colours and the two predicates\<close>

datatype rgb = Color (r: real) (g: real) (b: real)

text \<open>\<open>if (!color) return false\<close>: a missing colour is neither greenish nor bluish.\<close>

fun isGreenish :: "rgb option \<Rightarrow> bool" where
  "isGreenish None = False"
| "isGreenish (Some c) = (g c > 0.35 \<and> r c < 0.25 \<and> b c < 0.25)"

fun isBluish :: "rgb option \<Rightarrow> bool" where
  "isBluish None = False"
| "isBluish (Some c) = (b c > 0.35 \<and> r c < 0.3 \<and> g c < 0.35)"

subsection \<open>Materials, textures and scene objects\<close>

text \<open>
  The two reflection maps: \<open>metalEnv\<close>, made from the procedural room, and the map made
  from the HDR image when its load succeeds.
\<close>

datatype texture = RoomEnvMap | HdrEnvMap

text \<open>Everything with a disposal routine that the component calls.\<close>

datatype resource =
    ControlsRes
  | DracoLoaderRes
  | GoldMatRes
  | DiamondMatRes
  | TextureRes texture
  | HdrImageRes
  | PmremRes
  | RendererRes
  | GeometryRes nat
  | OrigMaterialRes nat
  | OrigTextureRes nat

text \<open>
  A material that came with the model: its identity, its \<open>color\<close> property if it has
  one, and the textures held by its enumerable properties, in key order.
\<close>

record orig_material =
  orig_id :: nat
  orig_color :: "rgb option"
  orig_textures :: "nat list"

text \<open>
  \<open>obj.material\<close> as the loader delivers it: absent, one material, or an array of
  materials (an entry may be absent).
\<close>

datatype orig_slot =
    NoMaterial
  | Single orig_material
  | Multi "orig_material option list"

text \<open>
  \<open>obj.material\<close> of an object in the scene: what the loader delivered, or one of the
  two shared materials of the component.
\<close>

datatype material_slot =
    Original orig_slot
  | GoldMat
  | DiamondMat

text \<open>The shared materials, with the properties the component sets.\<close>

record material =
  color :: nat
  metalness :: real
  roughness :: real
  envMapIntensity :: real
  envMap :: "texture option"
  depthTest :: bool
  depthWrite :: bool

type_synonym vec3 = "real \<times> real \<times> real"

text \<open>
  An object of the scene graph. Geometries are objects of their own, referred to by
  identity: two meshes may refer to the same geometry.
\<close>

record 'm node =
  isMesh :: bool
  name :: string
  mat :: 'm
  geometry :: "nat option"
  renderOrder :: int
  position :: vec3
  rotation_y :: real

datatype 'm object3d = Object3D (node_of: "'m node") (children: "'m object3d list")

definition set_material :: "'a node \<Rightarrow> 'b \<Rightarrow> 'b node" where
  "set_material obj m =
     \<lparr>isMesh = isMesh obj, name = name obj, mat = m, geometry = geometry obj,
      renderOrder = renderOrder obj, position = position obj, rotation_y = rotation_y obj\<rparr>"

text \<open>Which of the two colour predicates were called, in order.\<close>

datatype predicate = IsBluish | IsGreenish

datatype jsnumber = Finite real | PosInfinity | NaN

text \<open>
  The quotient of two non-negative integers as JavaScript computes it:
  \<open>w / 0\<close> is \<open>Infinity\<close> for positive \<open>w\<close> and \<open>NaN\<close> for \<open>0 / 0\<close>.
\<close>

definition js_div :: "nat \<Rightarrow> nat \<Rightarrow> jsnumber" where
  "js_div w h =
     (if h = 0 then (if w = 0 then NaN else PosInfinity) else Finite (real w / real h))"

text \<open>
  The camera. \<open>projection\<close> holds the parameters from which the projection matrix was
  last computed (by the constructor or by \<open>updateProjectionMatrix\<close>).
\<close>

record camera =
  fov :: real
  aspect :: jsnumber
  near :: real
  far :: real
  cam_position :: vec3
  projection :: "real \<times> jsnumber \<times> real \<times> real"

definition updateProjectionMatrix :: "camera \<Rightarrow> camera" where
  "updateProjectionMatrix c = c\<lparr>projection := (fov c, aspect c, near c, far c)\<rparr>"

text \<open>
  The state of one mount: the container element, the objects the effect creates and
  the variables its closures share.
\<close>

record viewer =
  clientWidth :: nat
  clientHeight :: nat
  domAttached :: bool
  cam :: camera
  rendererSize :: "nat \<times> nat"
  goldMat :: material
  diamondMat :: material
  diamondEnv :: "texture option"
  sceneChildren :: "material_slot object3d list"
  ringRoot :: "nat option"
  controlsTarget :: vec3
  rafActive :: bool
  resizeListener :: bool
  hdrPending :: bool
  modelPending :: bool
  disposed :: "resource list"
  evaluated :: "predicate list"

subsection \<open>Disposal\<close>

text \<open>A call of a disposal routine of the library is appended to the log.\<close>

definition dispose :: "resource \<Rightarrow> viewer \<Rightarrow> viewer" where
  "dispose x st = st\<lparr>disposed := disposed st @ [x]\<rparr>"

definition dispose_all :: "resource list \<Rightarrow> viewer \<Rightarrow> viewer" where
  "dispose_all xs st = st\<lparr>disposed := disposed st @ xs\<rparr>"

text \<open>
  \<open>disposeMaterial\<close>: nothing for an absent material; each entry of an array in turn;
  otherwise every texture among the material's properties, then the material itself.
\<close>

definition disposeOne :: "orig_material \<Rightarrow> resource list" where
  "disposeOne m = map OrigTextureRes (orig_textures m) @ [OrigMaterialRes (orig_id m)]"

fun disposeEntries :: "orig_material option list \<Rightarrow> resource list" where
  "disposeEntries [] = []"
| "disposeEntries (None # ms) = disposeEntries ms"
| "disposeEntries (Some m # ms) = disposeOne m @ disposeEntries ms"

fun disposeMaterial :: "orig_slot \<Rightarrow> viewer \<Rightarrow> viewer" where
  "disposeMaterial NoMaterial st = st"
| "disposeMaterial (Multi ms) st = dispose_all (disposeEntries ms) st"
| "disposeMaterial (Single m) st = dispose_all (disposeOne m) st"

subsection \<open>Classification of the meshes of a loaded model\<close>

text \<open>
  \<open>a || f(x)\<close> calls \<open>f\<close> only when \<open>a\<close> is false. The call is recorded.
\<close>

definition or_else :: "bool \<Rightarrow> predicate \<Rightarrow> bool \<Rightarrow> viewer \<Rightarrow> bool \<times> viewer" where
  "or_else a p v st = (if a then (True, st) else (v, st\<lparr>evaluated := evaluated st @ [p]\<rparr>))"

definition nameSuggestsGem :: "string \<Rightarrow> bool" where
  "nameSuggestsGem nm =
     (str_includes nm ''gem'' \<or> str_includes nm ''stone'' \<or> str_includes nm ''diamond'' \<or>
      str_includes nm ''center'' \<or> str_includes nm ''mainstone'')"

text \<open>\<open>Array.isArray(oldMat) ? oldMat[0]?.color : oldMat?.color\<close>\<close>

fun oldColor :: "orig_slot \<Rightarrow> rgb option" where
  "oldColor NoMaterial = None"
| "oldColor (Single m) = orig_color m"
| "oldColor (Multi []) = None"
| "oldColor (Multi (None # ms)) = None"
| "oldColor (Multi (Some m # ms)) = orig_color m"

text \<open>The two assignments of the callback.\<close>

definition assign_gem :: "orig_slot node \<Rightarrow> viewer \<Rightarrow> material_slot node \<times> viewer" where
  "assign_gem obj st =
     ((set_material obj DiamondMat)\<lparr>renderOrder := 2\<rparr>,
      st\<lparr>diamondMat := (diamondMat st)\<lparr>depthTest := True, depthWrite := False\<rparr>\<rparr>)"

definition assign_metal :: "orig_slot node \<Rightarrow> viewer \<Rightarrow> material_slot node \<times> viewer" where
  "assign_metal obj st = ((set_material obj GoldMat)\<lparr>renderOrder := 0\<rparr>, st)"

text \<open>
  The callback of \<open>ringRoot.traverse\<close>. An object that is not a mesh is left as it is.
  \<open>obj.name || ""\<close> is the name itself (the empty name is the empty string).
\<close>

definition classify :: "orig_slot node \<Rightarrow> viewer \<Rightarrow> material_slot node \<times> viewer" where
  "classify obj st =
     (if \<not> isMesh obj then (set_material obj (Original (mat obj)), st)
      else
        let oldMat = mat obj;
            nm = toLowerCase (name obj);
            (useGem, st1) = or_else (nameSuggestsGem nm) IsBluish (isBluish (oldColor oldMat)) st;
            useMetal = \<not> useGem;
            (obj', st3) =
              (if useGem then assign_gem obj st1
               else
                 let (c, st2) = or_else useMetal IsGreenish (isGreenish (oldColor oldMat)) st1
                 in if c then assign_metal obj st2 else assign_metal obj st2)
        in (obj', disposeMaterial oldMat st3))"

text \<open>\<open>traverse\<close> calls the callback on the object, then traverses each child in order.\<close>

fun traverse_classify :: "orig_slot object3d \<Rightarrow> viewer \<Rightarrow> material_slot object3d \<times> viewer"
  and traverse_children :: "orig_slot object3d list \<Rightarrow> viewer \<Rightarrow> material_slot object3d list \<times> viewer"
where
  "traverse_classify (Object3D obj cs) st =
     (case classify obj st of (obj', st1) \<Rightarrow>
        case traverse_children cs st1 of (cs', st2) \<Rightarrow> (Object3D obj' cs', st2))"
| "traverse_children [] st = ([], st)"
| "traverse_children (c # cs) st =
     (case traverse_classify c st of (c', st1) \<Rightarrow>
        case traverse_children cs st1 of (cs', st2) \<Rightarrow> (c' # cs', st2))"

subsection \<open>Selection of the model and the metal\<close>

text \<open>
  \<open>pickRandom\<close> with the value \<open>u\<close> that \<open>Math.random()\<close> returned. An index outside
  the array reads \<open>undefined\<close>.
\<close>

definition pickRandom :: "real \<Rightarrow> 'a list \<Rightarrow> 'a option" where
  "pickRandom u arr =
     (let i = \<lfloor>u * real (length arr)\<rfloor>
      in if 0 \<le> i \<and> i < int (length arr) then Some (arr ! nat i) else None)"

text \<open>
  React's \<open>useRef(init)\<close>: the first render of an instance stores \<open>init\<close> in the hook's
  slot; a later render returns the stored object and ignores its argument. The result
  is the value of \<open>.current\<close> and the slot.
\<close>

definition useRef :: "'a \<Rightarrow> 'a option \<Rightarrow> 'a \<times> 'a option" where
  "useRef init slot = (case slot of None \<Rightarrow> (init, Some init) | Some v \<Rightarrow> (v, Some v))"

record hooks =
  modelPathSlot :: "string option option"
  metalKeySlot :: "string option option"

record rendered =
  modelPath :: "string option"
  metalKey :: "string option"
  metal :: "metal_preset option"

text \<open>
  One render of the component, up to the effect. \<open>rnd\<close> is the sequence of values that
  \<open>Math.random()\<close> returns and \<open>k\<close> the number of calls made so far; the arguments of
  \<open>useRef\<close> are evaluated before \<open>useRef\<close> is called, at every render.
\<close>

definition RingViewer :: "hooks \<Rightarrow> (nat \<Rightarrow> real) \<Rightarrow> nat \<Rightarrow> rendered \<times> hooks \<times> nat" where
  "RingViewer hk rnd k =
     (let (path, s1) = useRef (pickRandom (rnd k) RING_MODELS) (modelPathSlot hk);
          (key, s2) = useRef (pickRandom (rnd (k + 1)) METAL_KEYS) (metalKeySlot hk);
          m = (case key of None \<Rightarrow> None | Some key' \<Rightarrow> map_of METALS key')
      in (\<lparr>modelPath = path, metalKey = key, metal = m\<rparr>,
          \<lparr>modelPathSlot = s1, metalKeySlot = s2\<rparr>, k + 2))"

definition fresh_hooks :: hooks where
  "fresh_hooks = \<lparr>modelPathSlot = None, metalKeySlot = None\<rparr>"

text \<open>The first render of a mount followed by \<open>n\<close> re-renders of the same instance.\<close>

fun renders :: "nat \<Rightarrow> (nat \<Rightarrow> real) \<Rightarrow> nat \<Rightarrow> rendered \<times> hooks \<times> nat" where
  "renders 0 rnd k = RingViewer fresh_hooks rnd k"
| "renders (Suc n) rnd k = (case renders n rnd k of (out, hk, k') \<Rightarrow> RingViewer hk rnd k')"

subsection \<open>Boxes and the camera fit\<close>

text \<open>
  \<open>Box3\<close> of the library: a box is empty when its maximum lies below its minimum on
  some axis; the centre of an empty box is the origin; the bounding sphere of an empty
  box has radius \<open>-1\<close>, that of another box half its diagonal.
\<close>

datatype box3 = Box3 (bmin: vec3) (bmax: vec3)

fun vec_add :: "vec3 \<Rightarrow> vec3 \<Rightarrow> vec3" where
  "vec_add (a1, a2, a3) (b1, b2, b3) = (a1 + b1, a2 + b2, a3 + b3)"

fun vec_sub :: "vec3 \<Rightarrow> vec3 \<Rightarrow> vec3" where
  "vec_sub (a1, a2, a3) (b1, b2, b3) = (a1 - b1, a2 - b2, a3 - b3)"

fun vec_scale :: "vec3 \<Rightarrow> real \<Rightarrow> vec3" where
  "vec_scale (a1, a2, a3) k = (a1 * k, a2 * k, a3 * k)"

fun vec_length :: "vec3 \<Rightarrow> real" where
  "vec_length (a1, a2, a3) = sqrt (a1 * a1 + a2 * a2 + a3 * a3)"

fun isEmpty :: "box3 \<Rightarrow> bool" where
  "isEmpty (Box3 (l1, l2, l3) (h1, h2, h3)) = (h1 < l1 \<or> h2 < l2 \<or> h3 < l3)"

definition getCenter :: "box3 \<Rightarrow> vec3" where
  "getCenter bx = (if isEmpty bx then (0, 0, 0) else vec_scale (vec_add (bmin bx) (bmax bx)) 0.5)"

definition getSize :: "box3 \<Rightarrow> vec3" where
  "getSize bx = (if isEmpty bx then (0, 0, 0) else vec_sub (bmax bx) (bmin bx))"

definition sphereRadius :: "box3 \<Rightarrow> real" where
  "sphereRadius bx = (if isEmpty bx then - 1 else vec_length (getSize bx) * 0.5)"

text \<open>
  \<open>Box3.setFromObject(ringRoot)\<close> is the world-space box of the geometry below the
  root. The scene keeps the identity transform, so the root's position is a translation
  in world space: with \<open>extent\<close> the box the root's content has when the root stands at
  the origin (delivered with the loaded model), the box is \<open>extent\<close> moved by the
  position.
\<close>

definition setFromObject :: "'m node \<Rightarrow> box3 \<Rightarrow> box3" where
  "setFromObject obj extent =
     Box3 (vec_add (bmin extent) (position obj)) (vec_add (bmax extent) (position obj))"

definition degToRad :: "real \<Rightarrow> real" where
  "degToRad d = d * (pi / 180)"

text \<open>
  \<open>controls.update()\<close> without pointer input (none is modelled) derives the camera
  position again from its offset to the target and leaves it where it is.
\<close>

definition controls_update :: "viewer \<Rightarrow> viewer" where
  "controls_update st = st"

text \<open>
  The fit of the camera to the box. The divisor \<open>tan (fov / 2)\<close> is positive for the
  field of view of this camera (45 degrees, never written after construction).
\<close>

definition fit_camera :: "box3 \<Rightarrow> camera \<Rightarrow> camera" where
  "fit_camera bx c =
     (let radius = max 0.001 (sphereRadius bx);
          dist = radius / tan (degToRad (fov c / 2))
      in updateProjectionMatrix
           (c\<lparr>cam_position := (0, radius * 0.35, dist * 1.22),
              near := max 0.001 (dist / 100),
              far := dist * 100\<rparr>))"

subsection \<open>The mount effect and its callbacks\<close>

definition metalEnv :: texture where
  "metalEnv = RoomEnvMap"

definition light :: "vec3 \<Rightarrow> material_slot object3d" where
  "light p =
     Object3D \<lparr>isMesh = False, name = [], mat = Original NoMaterial, geometry = None,
               renderOrder = 0, position = p, rotation_y = 0\<rparr> []"

text \<open>The ambient light, the hemisphere light, the key light and the rim light.\<close>

definition lights :: "material_slot object3d list" where
  "lights = [light (0, 0, 0), light (0, 1, 0), light (4, 6, 3), light (- 2, 4, - 6)]"

text \<open>
  The effect, up to the start of the two loads and of the animation. The argument is
  the client size of the container, or \<open>None\<close> when \<open>mountRef.current\<close> is absent (the
  effect then returns without a teardown). A material of the library tests and writes
  depth unless told otherwise.
\<close>

definition initial_viewer :: "nat \<Rightarrow> nat \<Rightarrow> metal_preset \<Rightarrow> viewer" where
  "initial_viewer w h m =
     \<lparr>clientWidth = w, clientHeight = h, domAttached = True,
      cam = \<lparr>fov = 45, aspect = js_div w h, near = 0.01, far = 1000,
             cam_position = (0, 0.6, 2.4),
             projection = (45, js_div w h, 0.01, 1000)\<rparr>,
      rendererSize = (w, h),
      goldMat = \<lparr>color = preset_color m, metalness = 1.0,
                 roughness = preset_roughness m + 0.05,
                 envMapIntensity = envIntensity m * 0.75,
                 envMap = Some metalEnv, depthTest = True, depthWrite = True\<rparr>,
      diamondMat = \<lparr>color = 0xA8A9AD, metalness = 0.99, roughness = 0.1,
                    envMapIntensity = 5, envMap = None,
                    depthTest = True, depthWrite = True\<rparr>,
      diamondEnv = None,
      sceneChildren = lights, ringRoot = None, controlsTarget = (0, 0, 0),
      rafActive = True, resizeListener = True,
      hdrPending = True, modelPending = True,
      disposed = [], evaluated = []\<rparr>"

fun mount_effect :: "(nat \<times> nat) option \<Rightarrow> metal_preset \<Rightarrow> viewer option" where
  "mount_effect None m = None"
| "mount_effect (Some (w, h)) m = Some (initial_viewer w h m)"

text \<open>The success and the error callback of the HDR load.\<close>

definition on_hdr_loaded :: "viewer \<Rightarrow> viewer" where
  "on_hdr_loaded st =
     (let st1 = st\<lparr>diamondEnv := Some HdrEnvMap\<rparr>;
          st2 = st1\<lparr>diamondMat := (diamondMat st1)\<lparr>envMap := diamondEnv st1\<rparr>\<rparr>
      in dispose HdrImageRes st2)"

definition on_hdr_error :: "viewer \<Rightarrow> viewer" where
  "on_hdr_error st =
     st\<lparr>diamondMat := (diamondMat st)\<lparr>envMap := Some metalEnv, envMapIntensity := 6\<rparr>\<rparr>"

text \<open>
  The success callback of the model load: the root joins the scene, its meshes are
  classified, the root is moved by the centre of its box, the camera is fitted and the
  controls are re-targeted. (The root is one object, reached through \<open>ringRoot\<close> and
  through the scene; the model adds it to the scene's children with its final fields.)
\<close>

definition on_model_loaded :: "orig_slot object3d \<Rightarrow> box3 \<Rightarrow> viewer \<Rightarrow> viewer" where
  "on_model_loaded gltf_scene extent st =
     (case traverse_classify gltf_scene st of (Object3D rt cs, st1) \<Rightarrow>
        let bx = setFromObject rt extent;
            center = getCenter bx;
            rt' = rt\<lparr>position := vec_sub (position rt) center\<rparr>
        in controls_update
             (st1\<lparr>sceneChildren := sceneChildren st1 @ [Object3D rt' cs],
                  ringRoot := Some (length (sceneChildren st1)),
                  cam := fit_camera bx (cam st1),
                  controlsTarget := (0, 0, 0)\<rparr>))"

text \<open>The animation step, \<open>dt\<close> being the time since the previous step.\<close>

fun rotate_y :: "real \<Rightarrow> 'm object3d \<Rightarrow> 'm object3d" where
  "rotate_y a (Object3D obj cs) = Object3D (obj\<lparr>rotation_y := rotation_y obj + a\<rparr>) cs"

definition animate :: "real \<Rightarrow> viewer \<Rightarrow> viewer" where
  "animate dt st =
     controls_update
       (case ringRoot st of
          None \<Rightarrow> st
        | Some i \<Rightarrow> st\<lparr>sceneChildren := (sceneChildren st)[i := rotate_y (dt * 0.35) (sceneChildren st ! i)]\<rparr>)"

definition onResize :: "viewer \<Rightarrow> viewer" where
  "onResize st =
     (let w = clientWidth st; h = clientHeight st
      in st\<lparr>cam := updateProjectionMatrix ((cam st)\<lparr>aspect := js_div w h\<rparr>),
            rendererSize := (w, h)\<rparr>)"

subsection \<open>Teardown\<close>

text \<open>
  A call of a method on a variable that holds \<open>null\<close> or \<open>undefined\<close> throws a
  \<open>TypeError\<close>; an optional call (\<open>x?.dispose?.()\<close>) does nothing then. The variables of
  the teardown that may hold nothing are \<open>diamondEnv\<close>, the geometry of a mesh and the
  parent of the renderer's canvas.
\<close>

datatype js_error = TypeError

definition member_dispose :: "resource option \<Rightarrow> viewer \<Rightarrow> js_error + viewer" where
  "member_dispose x st = (case x of None \<Rightarrow> Inl TypeError | Some y \<Rightarrow> Inr (dispose y st))"

definition optional_dispose :: "resource option \<Rightarrow> viewer \<Rightarrow> js_error + viewer" where
  "optional_dispose x st = (case x of None \<Rightarrow> Inr st | Some y \<Rightarrow> Inr (dispose y st))"

definition then_do :: "js_error + viewer \<Rightarrow> (viewer \<Rightarrow> js_error + viewer) \<Rightarrow> js_error + viewer" where
  "then_do res f = (case res of Inl e \<Rightarrow> Inl e | Inr st \<Rightarrow> f st)"

fun run_steps :: "(viewer \<Rightarrow> js_error + viewer) list \<Rightarrow> viewer \<Rightarrow> js_error + viewer" where
  "run_steps [] st = Inr st"
| "run_steps (f # fs) st = then_do (f st) (run_steps fs)"

text \<open>
  \<open>scene.traverse\<close> in the teardown: \<open>obj.geometry?.dispose?.()\<close> for every mesh, the
  object first, then its children in order.
\<close>

fun dispose_geometry :: "'m object3d \<Rightarrow> viewer \<Rightarrow> js_error + viewer"
  and dispose_geometries :: "'m object3d list \<Rightarrow> viewer \<Rightarrow> js_error + viewer"
where
  "dispose_geometry (Object3D obj cs) st =
     then_do
       (if \<not> isMesh obj then Inr st
        else optional_dispose (map_option GeometryRes (geometry obj)) st)
       (dispose_geometries cs)"
| "dispose_geometries [] st = Inr st"
| "dispose_geometries (c # cs) st = then_do (dispose_geometry c st) (dispose_geometries cs)"

text \<open>
  The function the effect returns. The scene itself is not a mesh, so its traversal is
  the traversal of its children.
\<close>

definition teardown :: "viewer \<Rightarrow> js_error + viewer" where
  "teardown =
     run_steps
       [\<lambda>st. Inr (st\<lparr>resizeListener := False\<rparr>),
        \<lambda>st. Inr (st\<lparr>rafActive := False\<rparr>),
        \<lambda>st. Inr (dispose ControlsRes st),
        \<lambda>st. Inr (dispose DracoLoaderRes st),
        \<lambda>st. Inr (dispose GoldMatRes st),
        \<lambda>st. Inr (dispose DiamondMatRes st),
        \<lambda>st. optional_dispose (Some (TextureRes metalEnv)) st,
        \<lambda>st. if diamondEnv st \<noteq> None
              then member_dispose (map_option TextureRes (diamondEnv st)) st else Inr st,
        \<lambda>st. Inr (dispose PmremRes st),
        \<lambda>st. dispose_geometries (sceneChildren st) st,
        \<lambda>st. Inr (dispose RendererRes st),
        \<lambda>st. if domAttached st then Inr (st\<lparr>domAttached := False\<rparr>) else Inr st]"

subsection \<open>Events of a mount\<close>

text \<open>
  What can happen to a mounted viewer: each load reports once, with success or with
  failure; the browser calls the animation step while the frame request stands and
  the resize handler while the listener is registered; the container may change its
  size; the teardown runs.
\<close>

datatype event =
    HdrLoaded
  | HdrFailed
  | ModelLoaded "orig_slot object3d" box3
  | ModelFailed
  | Frame real
  | ContainerResized nat nat
  | WindowResize
  | Cleanup

fun step :: "event \<Rightarrow> viewer \<Rightarrow> viewer" where
  "step HdrLoaded st = (if hdrPending st then on_hdr_loaded (st\<lparr>hdrPending := False\<rparr>) else st)"
| "step HdrFailed st = (if hdrPending st then on_hdr_error (st\<lparr>hdrPending := False\<rparr>) else st)"
| "step (ModelLoaded gltf_scene extent) st =
     (if modelPending st then on_model_loaded gltf_scene extent (st\<lparr>modelPending := False\<rparr>) else st)"
| "step ModelFailed st = st\<lparr>modelPending := False\<rparr>"
| "step (Frame dt) st = (if rafActive st then animate dt st else st)"
| "step (ContainerResized w h) st = st\<lparr>clientWidth := w, clientHeight := h\<rparr>"
| "step WindowResize st = (if resizeListener st then onResize st else st)"
| "step Cleanup st = (case teardown st of Inl e \<Rightarrow> st | Inr st' \<Rightarrow> st')"

fun run :: "event list \<Rightarrow> viewer \<Rightarrow> viewer" where
  "run [] st = st"
| "run (e # es) st = run es (step e st)"

subsection \<open>Notions used in the statements and proofs\<close>

text \<open>The objects of a graph in the order in which \<open>traverse\<close> visits them.\<close>

fun nodes :: "'m object3d \<Rightarrow> 'm node list"
  and nodes_of_list :: "'m object3d list \<Rightarrow> 'm node list"
where
  "nodes (Object3D obj cs) = obj # nodes_of_list cs"
| "nodes_of_list [] = []"
| "nodes_of_list (c # cs) = nodes c @ nodes_of_list cs"

text \<open>The value of \<open>useGem\<close> in the callback, and the object the callback leaves.\<close>

definition useGem :: "orig_slot node \<Rightarrow> bool" where
  "useGem obj = (nameSuggestsGem (toLowerCase (name obj)) \<or> isBluish (oldColor (mat obj)))"

definition classified :: "orig_slot node \<Rightarrow> material_slot node" where
  "classified obj =
     (if \<not> isMesh obj then set_material obj (Original (mat obj))
      else if useGem obj then (set_material obj DiamondMat)\<lparr>renderOrder := 2\<rparr>
      else (set_material obj GoldMat)\<lparr>renderOrder := 0\<rparr>)"


text \<open>
  The callback with the greenish check removed: a mesh that is not a gem gets the metal
  material, whatever its colour.
\<close>

definition classify_without_greenish :: "orig_slot node \<Rightarrow> viewer \<Rightarrow> material_slot node \<times> viewer" where
  "classify_without_greenish obj st =
     (if \<not> isMesh obj then (set_material obj (Original (mat obj)), st)
      else
        let oldMat = mat obj;
            nm = toLowerCase (name obj);
            (useGem, st1) = or_else (nameSuggestsGem nm) IsBluish (isBluish (oldColor oldMat)) st;
            (obj', st3) = (if useGem then assign_gem obj st1 else assign_metal obj st1)
        in (obj', disposeMaterial oldMat st3))"

text \<open>A state without the traces a classification leaves.\<close>

definition unclassified :: "viewer \<Rightarrow> viewer" where
  "unclassified st =
     st\<lparr>diamondMat := (diamondMat st)\<lparr>depthTest := True, depthWrite := True\<rparr>,
        disposed := [], evaluated := []\<rparr>"

text \<open>The disposals of the teardown, in the order of its calls.\<close>

fun geometry_log :: "'m object3d \<Rightarrow> resource list"
  and geometry_logs :: "'m object3d list \<Rightarrow> resource list"
where
  "geometry_log (Object3D obj cs) =
     (if isMesh obj then (case geometry obj of None \<Rightarrow> [] | Some i \<Rightarrow> [GeometryRes i]) else []) @
     geometry_logs cs"
| "geometry_logs [] = []"
| "geometry_logs (c # cs) = geometry_log c @ geometry_logs cs"

definition teardown_log :: "viewer \<Rightarrow> resource list" where
  "teardown_log st =
     [ControlsRes, DracoLoaderRes, GoldMatRes, DiamondMatRes, TextureRes metalEnv] @
     (case diamondEnv st of None \<Rightarrow> [] | Some t \<Rightarrow> [TextureRes t]) @
     [PmremRes] @ geometry_logs (sceneChildren st) @ [RendererRes]"

fun mesh_geometry :: "'m node \<Rightarrow> resource list" where
  "mesh_geometry obj =
     (if isMesh obj then (case geometry obj of None \<Rightarrow> [] | Some i \<Rightarrow> [GeometryRes i]) else [])"

fun is_geometry :: "resource \<Rightarrow> bool" where
  "is_geometry (GeometryRes i) = True"
| "is_geometry x = False"


subsection \<open>A small model and a mounted viewer, for the concrete cases\<close>

definition example_mesh :: "string \<Rightarrow> rgb option \<Rightarrow> nat \<Rightarrow> orig_slot object3d" where
  "example_mesh nm c i =
     Object3D \<lparr>isMesh = True, name = nm,
               mat = Single \<lparr>orig_id = i, orig_color = c, orig_textures = []\<rparr>,
               geometry = Some i, renderOrder = 0, position = (0, 0, 0), rotation_y = 0\<rparr> []"

definition example_model :: "orig_slot object3d" where
  "example_model =
     Object3D \<lparr>isMesh = False, name = ''ring'', mat = NoMaterial, geometry = None,
               renderOrder = 0, position = (0, 0, 0), rotation_y = 0\<rparr>
       [example_mesh ''centerStone'' (Some (Color 0.9 0.1 0.1)) 0,
        example_mesh ''accent'' (Some (Color 0.1 0.2 0.8)) 1,
        example_mesh ''band'' (Some (Color 0.1 0.5 0.1)) 2]"

definition example_viewer :: viewer where
  "example_viewer = initial_viewer 800 520 (snd (hd METALS))"

definition example_extent :: box3 where
  "example_extent = Box3 (1, 2, 3) (3, 6, 7)"

text \<open>Two meshes that refer to one geometry (and one material), as instances of a mesh do.\<close>

definition shared_geometry_model :: "orig_slot object3d" where
  "shared_geometry_model =
     Object3D \<lparr>isMesh = False, name = ''ring'', mat = NoMaterial, geometry = None,
               renderOrder = 0, position = (0, 0, 0), rotation_y = 0\<rparr>
       [example_mesh ''band'' None 7, example_mesh ''band'' None 7]"

text \<open>Values for \<open>Math.random()\<close>: 0.25 at the even calls, 0.7 at the odd ones.\<close>

definition example_random :: "nat \<Rightarrow> real" where
  "example_random j = (if even j then 0.25 else 0.7)"

section \<open>Properties\<close>

subsection \<open>Strings and predicates\<close>





lemma lower_examples:
  "toLowerCase ''centerStone'' = ''centerstone''"
  "toLowerCase ''accent'' = ''accent''"
  "toLowerCase ''band'' = ''band''"
  "toLowerCase ''ring'' = ''ring''"
  by code_simp+

subsection \<open>Classification\<close>

lemma diamondMat_disposeMaterial [simp]: "diamondMat (disposeMaterial m st) = diamondMat st"
  by (cases m) (simp_all add: dispose_all_def)

lemma evaluated_disposeMaterial [simp]: "evaluated (disposeMaterial m st) = evaluated st"
  by (cases m) (simp_all add: dispose_all_def)

lemma classify_eq:
  "classify obj st =
     (if \<not> isMesh obj then (set_material obj (Original (mat obj)), st)
      else if useGem obj then
        ((set_material obj DiamondMat)\<lparr>renderOrder := 2\<rparr>,
         disposeMaterial (mat obj)
           ((if nameSuggestsGem (toLowerCase (name obj)) then st
             else st\<lparr>evaluated := evaluated st @ [IsBluish]\<rparr>)
            \<lparr>diamondMat := (diamondMat st)\<lparr>depthTest := True, depthWrite := False\<rparr>\<rparr>))
      else
        ((set_material obj GoldMat)\<lparr>renderOrder := 0\<rparr>,
         disposeMaterial (mat obj) (st\<lparr>evaluated := evaluated st @ [IsBluish]\<rparr>)))"
  by (auto simp: classify_def useGem_def or_else_def assign_gem_def assign_metal_def Let_def)

lemma fst_classify: "fst (classify obj st) = classified obj"
  by (simp add: classify_eq classified_def)






text \<open>
  C3, as stated: in the classification of a mesh that is not a gem the greenish predicate
  is evaluated. It is not: for the green mesh "band", which gets the metal material, the
  only predicate called is the bluish one.
\<close>

theorem greenish_counterexample:
  "mat (fst (classify (node_of (example_mesh ''band'' (Some (Color 0.1 0.5 0.1)) 2)) example_viewer)) = GoldMat \<and>
   isGreenish (Some (Color 0.1 0.5 0.1)) \<and>
   IsGreenish \<notin> set (evaluated (snd (classify (node_of (example_mesh ''band'' (Some (Color 0.1 0.5 0.1)) 2)) example_viewer)))"
  by (simp add: classify_def example_mesh_def lower_examples nameSuggestsGem_def or_else_def
        assign_metal_def set_material_def example_viewer_def initial_viewer_def dispose_all_def)

text \<open>
  C3, amended. The callback is equal to the callback with the greenish check removed,
  and it never calls the greenish predicate: in the branch of a mesh that is not a gem
  \<open>useMetal\<close> is true and decides the disjunction, so the last \<open>else\<close> is never taken.
  The predicates a call of the callback evaluates are the bluish one, for a mesh whose
  name does not suggest a gem, and nothing else.
\<close>

theorem greenish_check_redundant:
  "classify obj st = classify_without_greenish obj st \<and>
   evaluated (snd (classify obj st)) =
     evaluated st @
       (if isMesh obj \<and> \<not> nameSuggestsGem (toLowerCase (name obj)) then [IsBluish] else [])"
  by (auto simp: classify_def classify_without_greenish_def or_else_def assign_gem_def
        assign_metal_def Let_def)

subsection \<open>What the callbacks leave unchanged\<close>

lemma unclassified_disposeMaterial [simp]:
  "unclassified (disposeMaterial m st) = unclassified st"
  by (cases m) (simp_all add: unclassified_def dispose_all_def)

lemma unclassified_classify: "unclassified (snd (classify obj st)) = unclassified st"
  by (simp add: classify_eq) (simp add: unclassified_def)

lemma unclassified_traverse:
  "unclassified (snd (traverse_classify t st)) = unclassified st"
  "unclassified (snd (traverse_children ts st)) = unclassified st"
proof (induction t st and ts st rule: traverse_classify_traverse_children.induct)
  case (1 obj cs st)
  then show ?case
    using unclassified_classify [of obj st] by (auto split: prod.splits)
next
  case (2 st)
  then show ?case by simp
next
  case (3 c cs st)
  then show ?case
    by (auto split: prod.splits)
qed

lemma unclassified_fields:
  "cam (unclassified st) = cam st"
  "goldMat (unclassified st) = goldMat st"
  "diamondEnv (unclassified st) = diamondEnv st"
  "sceneChildren (unclassified st) = sceneChildren st"
  "hdrPending (unclassified st) = hdrPending st"
  "envMap (diamondMat (unclassified st)) = envMap (diamondMat st)"
  "envMapIntensity (diamondMat (unclassified st)) = envMapIntensity (diamondMat st)"
  by (simp_all add: unclassified_def)

lemma traverse_keeps:
  "cam (snd (traverse_classify t st)) = cam st"
  "goldMat (snd (traverse_classify t st)) = goldMat st"
  "diamondEnv (snd (traverse_classify t st)) = diamondEnv st"
  "sceneChildren (snd (traverse_classify t st)) = sceneChildren st"
  "hdrPending (snd (traverse_classify t st)) = hdrPending st"
  "envMap (diamondMat (snd (traverse_classify t st))) = envMap (diamondMat st)"
  "envMapIntensity (diamondMat (snd (traverse_classify t st))) = envMapIntensity (diamondMat st)"
  using unclassified_fields [of "snd (traverse_classify t st)", symmetric]
  by (simp_all add: unclassified_traverse unclassified_fields)

lemma on_model_loaded_eq:
  "on_model_loaded gl ex st =
     (let t = fst (traverse_classify gl st); st1 = snd (traverse_classify gl st);
          bx = setFromObject (node_of t) ex
      in st1\<lparr>sceneChildren := sceneChildren st @
                [Object3D ((node_of t)\<lparr>position := vec_sub (position (node_of t)) (getCenter bx)\<rparr>) (children t)],
             ringRoot := Some (length (sceneChildren st)),
             cam := fit_camera bx (cam st),
             controlsTarget := (0, 0, 0)\<rparr>)"
  by (cases "traverse_classify gl st"; cases "fst (traverse_classify gl st)")
     (use traverse_keeps [of gl st] in \<open>simp add: on_model_loaded_def controls_update_def Let_def\<close>)

lemma on_model_loaded_keeps:
  "goldMat (on_model_loaded gl ex st) = goldMat st"
  "diamondEnv (on_model_loaded gl ex st) = diamondEnv st"
  "hdrPending (on_model_loaded gl ex st) = hdrPending st"
  "envMap (diamondMat (on_model_loaded gl ex st)) = envMap (diamondMat st)"
  "envMapIntensity (diamondMat (on_model_loaded gl ex st)) = envMapIntensity (diamondMat st)"
  "fov (cam (on_model_loaded gl ex st)) = fov (cam st)"
  by (simp_all add: on_model_loaded_eq Let_def traverse_keeps fit_camera_def updateProjectionMatrix_def)

subsection \<open>The teardown as one update\<close>

lemma dispose_all_Nil [simp]: "dispose_all [] st = st"
  by (simp add: dispose_all_def)

lemma dispose_all_dispose_all [simp]:
  "dispose_all ys (dispose_all xs st) = dispose_all (xs @ ys) st"
  by (simp add: dispose_all_def)

lemma dispose_geometry_eq:
  fixes t :: "'m object3d" and ts :: "'m object3d list"
  shows "dispose_geometry t st = Inr (dispose_all (geometry_log t) st)"
    and "dispose_geometries ts st' = Inr (dispose_all (geometry_logs ts) st')"
proof (induction t st and ts st' rule: dispose_geometry_dispose_geometries.induct)
  case (1 obj cs st)
  then show ?case
    by (simp add: then_do_def optional_dispose_def dispose_def dispose_all_def split: option.splits)
next
  case (2 st)
  then show ?case by simp
next
  case (3 c cs st)
  then show ?case
    by (simp add: then_do_def)
qed

lemma teardown_eq:
  "teardown st =
     Inr (st\<lparr>resizeListener := False, rafActive := False,
             disposed := disposed st @ teardown_log st, domAttached := False\<rparr>)"
  by (cases "diamondEnv st")
     (simp_all add: teardown_def then_do_def optional_dispose_def member_dispose_def dispose_def
        dispose_geometry_eq dispose_all_def teardown_log_def)

subsection \<open>Invariants of the events\<close>

lemma step_keeps_goldMat: "goldMat (step e st) = goldMat st"
  by (cases e)
     (simp_all add: on_hdr_loaded_def on_hdr_error_def on_model_loaded_keeps animate_def
        controls_update_def onResize_def teardown_eq dispose_def Let_def split: option.splits)

lemma run_keeps_goldMat: "goldMat (run es st) = goldMat st"
  by (induction es arbitrary: st) (simp_all add: step_keeps_goldMat)





text \<open>Until the HDR load reports, the gem material has no reflection map and intensity 5.\<close>

lemma hdr_pending_default:
  "envMap (diamondMat (initial_viewer w h m)) = None \<and>
   envMapIntensity (diamondMat (initial_viewer w h m)) = 5"
  by (simp add: initial_viewer_def)




text \<open>
  C10. For each preset of the catalog, the shared metal material takes the preset's
  colour, metalness 1, the preset's roughness plus 0.05 and the preset's environment
  intensity times 0.75, so neither of the last two is the preset's own value; no event
  of the mount changes the material.
\<close>

theorem metal_material_adjusted:
  assumes "map_of METALS key = Some m"
  shows "color (goldMat (run es (initial_viewer w h m))) = preset_color m \<and>
         metalness (goldMat (run es (initial_viewer w h m))) = 1 \<and>
         roughness (goldMat (run es (initial_viewer w h m))) = preset_roughness m + 0.05 \<and>
         envMapIntensity (goldMat (run es (initial_viewer w h m))) = envIntensity m * 0.75 \<and>
         roughness (goldMat (run es (initial_viewer w h m))) \<noteq> preset_roughness m \<and>
         envMapIntensity (goldMat (run es (initial_viewer w h m))) \<noteq> envIntensity m"
proof -
  have "envIntensity m \<noteq> 0"
    using assms by (auto simp: METALS_def split: if_splits)
  then show ?thesis
    by (simp add: run_keeps_goldMat initial_viewer_def)
qed

theorem metal_material_adjusted_witness:
  "map_of METALS ''rose'' = Some (snd (METALS ! 2)) \<and>
   color (goldMat (run [HdrFailed, Frame (1 / 60)] (initial_viewer 800 520 (snd (METALS ! 2))))) = 0xd9a483 \<and>
   roughness (goldMat (run [HdrFailed, Frame (1 / 60)] (initial_viewer 800 520 (snd (METALS ! 2))))) = 0.15 \<and>
   envMapIntensity (goldMat (run [HdrFailed, Frame (1 / 60)] (initial_viewer 800 520 (snd (METALS ! 2))))) = 1.575"
  using metal_material_adjusted [of "''rose''" "snd (METALS ! 2)" "[HdrFailed, Frame (1 / 60)]" 800 520]
  by (simp add: METALS_def)

text \<open>
  C9. After the resize handler has run, the output size of the renderer is the client
  width and height of the container, the aspect ratio of the camera is their quotient,
  and the projection matrix has been computed from the camera's current parameters, for
  every container of positive height.
\<close>

theorem resize_matches_container:
  assumes "0 < clientHeight st"
  shows "rendererSize (onResize st) = (clientWidth st, clientHeight st) \<and>
         aspect (cam (onResize st)) = Finite (real (clientWidth st) / real (clientHeight st)) \<and>
         projection (cam (onResize st)) =
           (fov (cam (onResize st)), aspect (cam (onResize st)),
            near (cam (onResize st)), far (cam (onResize st)))"
  using assms by (simp add: onResize_def js_div_def updateProjectionMatrix_def Let_def)

theorem resize_matches_container_witness:
  "rendererSize (run [ContainerResized 1024 768, WindowResize] example_viewer) = (1024, 768) \<and>
   aspect (cam (run [ContainerResized 1024 768, WindowResize] example_viewer)) = Finite (4 / 3) \<and>
   projection (cam (run [ContainerResized 1024 768, WindowResize] example_viewer)) =
     (45, Finite (4 / 3), 0.01, 1000)"
  using resize_matches_container [of "step (ContainerResized 1024 768) example_viewer"]
  by (simp add: example_viewer_def initial_viewer_def onResize_def js_div_def
        updateProjectionMatrix_def)

text \<open>
  C8. The teardown never throws, in any state, so it can be invoked twice: the
  disposal of the HDR reflection map is skipped while the map does not exist, and the
  canvas, detached by the first invocation, is left alone by the second. The second
  invocation calls the same disposal routines again.
\<close>

theorem teardown_twice:
  "\<exists>st1 st2. teardown st = Inr st1 \<and> teardown st1 = Inr st2 \<and>
     \<not> domAttached st1 \<and> \<not> domAttached st2 \<and>
     \<not> resizeListener st2 \<and> \<not> rafActive st2 \<and>
     disposed st2 = disposed st @ teardown_log st @ teardown_log st"
  by (simp add: teardown_eq teardown_log_def)

subsection \<open>Centering and the camera fit\<close>

lemma node_of_traverse: "node_of (fst (traverse_classify t st)) = classified (node_of t)"
proof (cases t)
  case (Object3D obj cs)
  with fst_classify [of obj st] show ?thesis
    by (auto split: prod.splits)
qed

lemma position_classified [simp]: "position (classified obj) = position obj"
  by (simp add: classified_def set_material_def)

lemma setFromObject_classified: "setFromObject (classified obj) ex = setFromObject obj ex"
  by (simp add: setFromObject_def)

lemma center_after_shift:
  fixes obj :: "'a node" and obj' :: "'b node"
  assumes "position obj' = position obj"
  shows "getCenter (setFromObject (obj'\<lparr>position := vec_sub (position obj) (getCenter (setFromObject obj ex))\<rparr>) ex) = (0, 0, 0)"
proof (cases ex)
  case (Box3 lo hi)
  obtain l1 l2 l3 h1 h2 h3 p1 p2 p3
    where v: "lo = (l1, l2, l3)" "hi = (h1, h2, h3)" "position obj = (p1, p2, p3)"
    by (cases lo; cases hi; cases "position obj") auto
  show ?thesis
    by (simp add: Box3 v setFromObject_def getCenter_def)
qed

lemma sqrt_36: "sqrt 36 = 6"
  by (rule real_sqrt_unique) simp_all

lemma example_box:
  "setFromObject (node_of example_model) example_extent = Box3 (1, 2, 3) (3, 6, 7)"
  "sphereRadius (Box3 (1, 2, 3) (3, 6, 7)) = 3"
  "getCenter (Box3 (1, 2, 3) (3, 6, 7)) = (2, 4, 5)"
  by (simp_all add: example_model_def example_extent_def setFromObject_def sphereRadius_def
        getSize_def getCenter_def sqrt_36)

text \<open>
  C5. When the success callback of the model load has run, \<open>ringRoot\<close> is the object
  added to the scene, its position is the position it came with minus the centre of the
  box computed for it, and the centre of its box is the origin of the scene. (Real
  arithmetic: the equality is exact.)
\<close>

theorem model_centered:
  "ringRoot (on_model_loaded gl ex st) = Some (length (sceneChildren st)) \<and>
   position (node_of (sceneChildren (on_model_loaded gl ex st) ! length (sceneChildren st))) =
     vec_sub (position (node_of gl)) (getCenter (setFromObject (node_of gl) ex)) \<and>
   getCenter (setFromObject (node_of (sceneChildren (on_model_loaded gl ex st) ! length (sceneChildren st))) ex) =
     (0, 0, 0)"
  by (simp add: on_model_loaded_eq Let_def traverse_keeps node_of_traverse center_after_shift
        setFromObject_classified)

text \<open>
  The example model with content between \<open>(1, 2, 3)\<close> and \<open>(3, 6, 7)\<close>: the root moves
  to \<open>(-2, -4, -5)\<close> and its box becomes symmetric about the origin.
\<close>

theorem model_centered_witness:
  "position (node_of (sceneChildren (on_model_loaded example_model example_extent example_viewer) ! 4)) = (- 2, - 4, - 5) \<and>
   setFromObject (node_of (sceneChildren (on_model_loaded example_model example_extent example_viewer) ! 4)) example_extent =
     Box3 (- 1, - 2, - 2) (1, 2, 2)"
proof -
  have len: "length (sceneChildren example_viewer) = 4"
    by (simp add: example_viewer_def initial_viewer_def lights_def)
  note t = model_centered [of example_model example_extent example_viewer, unfolded len example_box]
  from t have p: "position (node_of (sceneChildren (on_model_loaded example_model example_extent example_viewer) ! 4)) = (- 2, - 4, - 5)"
    by (simp add: example_model_def)
  show ?thesis
    unfolding setFromObject_def p by (simp add: example_extent_def)
qed









subsection \<open>The disposals of the teardown\<close>

lemma geometry_logs_concat:
  fixes t :: "'m object3d" and ts :: "'m object3d list"
  shows "geometry_log t = concat (map mesh_geometry (nodes t))"
    and "geometry_logs ts = concat (map mesh_geometry (nodes_of_list ts))"
  by (induction t and ts rule: geometry_log_geometry_logs.induct) simp_all

lemma count_mesh_geometry_aux:
  "count_list (if m then (case go of None \<Rightarrow> [] | Some j \<Rightarrow> [GeometryRes j]) else []) (GeometryRes i) =
     (if m \<and> go = Some i then 1 else 0)"
  by (cases m; cases go) simp_all

lemma count_mesh_geometry:
  "count_list (mesh_geometry obj) (GeometryRes i) =
     (if isMesh obj \<and> geometry obj = Some i then 1 else 0)"
  unfolding mesh_geometry.simps by (rule count_mesh_geometry_aux)

lemma count_concat_geometry:
  "count_list (concat (map mesh_geometry objs)) (GeometryRes i) =
     length (filter (\<lambda>obj. isMesh obj \<and> geometry obj = Some i) objs)"
  by (induction objs) (simp_all add: count_mesh_geometry del: mesh_geometry.simps)

lemma all_geometry: "list_all is_geometry (concat (map mesh_geometry objs))"
proof (induction objs)
  case Nil
  then show ?case by simp
next
  case (Cons obj objs)
  have "list_all is_geometry (mesh_geometry obj)"
    by (cases "geometry obj") simp_all
  with Cons show ?case
    by (simp del: mesh_geometry.simps)
qed

lemma count_other_geometry_logs:
  "\<not> is_geometry x \<Longrightarrow> count_list (geometry_logs ts) x = 0"
  using all_geometry [of "nodes_of_list ts"]
  by (auto simp: geometry_logs_concat count_list_0_iff list_all_iff simp del: mesh_geometry.simps)

lemma count_geometry_logs:
  "count_list (geometry_logs ts) (GeometryRes i) =
     length (filter (\<lambda>obj. isMesh obj \<and> geometry obj = Some i) (nodes_of_list ts))"
  unfolding geometry_logs_concat by (rule count_concat_geometry)

lemma step_diamondEnv:
  "diamondEnv st \<noteq> Some RoomEnvMap \<Longrightarrow> diamondEnv (step e st) \<noteq> Some RoomEnvMap"
  by (cases e)
     (auto simp: on_hdr_loaded_def on_hdr_error_def on_model_loaded_keeps animate_def
        controls_update_def onResize_def teardown_eq dispose_def Let_def split: option.splits)

lemma run_diamondEnv:
  "diamondEnv st \<noteq> Some RoomEnvMap \<Longrightarrow> diamondEnv (run es st) \<noteq> Some RoomEnvMap"
  by (induction es arbitrary: st) (simp_all add: step_diamondEnv)

lemma diamondEnv_reachable:
  "diamondEnv (run es (initial_viewer w h m)) = None \<or>
   diamondEnv (run es (initial_viewer w h m)) = Some HdrEnvMap"
proof -
  have "diamondEnv (run es (initial_viewer w h m)) \<noteq> Some RoomEnvMap"
    by (rule run_diamondEnv) (simp add: initial_viewer_def)
  then show ?thesis
    by (cases "diamondEnv (run es (initial_viewer w h m))") (auto intro: texture.exhaust)
qed

text \<open>
  C7, as stated: the teardown invokes the disposal routine of every loaded mesh geometry
  exactly once. It does not when two meshes refer to one geometry: the traversal calls
  the routine once per mesh, here twice for geometry 7.
\<close>

theorem shared_geometry_counterexample:
  "(case teardown (run [ModelLoaded shared_geometry_model example_extent] example_viewer) of
      Inl e \<Rightarrow> False
    | Inr st' \<Rightarrow> count_list (disposed st') (GeometryRes 7) = 2)"
  by (simp add: teardown_eq teardown_log_def on_model_loaded_eq Let_def example_viewer_def
        initial_viewer_def shared_geometry_model_def example_mesh_def classify_eq useGem_def
        lower_examples nameSuggestsGem_def set_material_def dispose_all_def disposeOne_def
        lights_def light_def metalEnv_def split: prod.splits)

text \<open>
  C7, amended. When the teardown runs on a mounted viewer, it invokes exactly once the
  disposal routine of the controls, of the DRACO loader, of each shared material, of the
  synthetic environment map, of the PMREM generator and of the renderer; that of the HDR
  environment map exactly once if the map exists by then and not at all otherwise; and
  that of a geometry once for every mesh in the scene that refers to it, hence exactly
  once for a geometry that one mesh refers to.
\<close>

theorem teardown_disposals:
  "\<exists>st' log.
     teardown (run es (initial_viewer w h m)) = Inr st' \<and>
     disposed st' = disposed (run es (initial_viewer w h m)) @ log \<and>
     count_list log ControlsRes = 1 \<and>
     count_list log DracoLoaderRes = 1 \<and>
     count_list log GoldMatRes = 1 \<and>
     count_list log DiamondMatRes = 1 \<and>
     count_list log (TextureRes metalEnv) = 1 \<and>
     count_list log PmremRes = 1 \<and>
     count_list log RendererRes = 1 \<and>
     count_list log (TextureRes HdrEnvMap) =
       (if diamondEnv (run es (initial_viewer w h m)) = None then 0 else 1) \<and>
     (\<forall>i. count_list log (GeometryRes i) =
        length (filter (\<lambda>obj. isMesh obj \<and> geometry obj = Some i)
                  (nodes_of_list (sceneChildren (run es (initial_viewer w h m))))))"
proof -
  define st where "st = run es (initial_viewer w h m)"
  have env: "diamondEnv st = None \<or> diamondEnv st = Some HdrEnvMap"
    unfolding st_def by (rule diamondEnv_reachable)
  show ?thesis
    unfolding st_def [symmetric]
    using env
    by (auto simp: teardown_eq teardown_log_def metalEnv_def count_geometry_logs
          count_other_geometry_logs)
qed

text \<open>
  The example model, whose three meshes have a geometry each, loaded together with the
  HDR image: every routine is called once.
\<close>

theorem teardown_disposals_witness:
  "(case teardown (run [ModelLoaded example_model example_extent, HdrLoaded] example_viewer) of
      Inl e \<Rightarrow> False
    | Inr st' \<Rightarrow>
        map (count_list (disposed st'))
          [ControlsRes, DracoLoaderRes, GoldMatRes, DiamondMatRes, TextureRes RoomEnvMap,
           TextureRes HdrEnvMap, PmremRes, RendererRes, GeometryRes 0, GeometryRes 1, GeometryRes 2] =
        [1, 1, 1, 1, 1, 1, 1, 1, 1, 1, 1])"
  using teardown_disposals [of "[ModelLoaded example_model example_extent, HdrLoaded]" 800 520 "snd (hd METALS)"]
  by (simp add: teardown_eq teardown_log_def on_model_loaded_eq on_hdr_loaded_def dispose_def
        Let_def example_viewer_def
        initial_viewer_def example_model_def example_mesh_def classify_eq useGem_def
        lower_examples nameSuggestsGem_def set_material_def dispose_all_def disposeOne_def
        lights_def light_def metalEnv_def split: prod.splits)

subsection \<open>Selection of the model and the metal\<close>

lemma floor_index:
  assumes "0 \<le> u" "u < 1" "0 < n"
  shows "0 \<le> \<lfloor>u * real n\<rfloor>" "\<lfloor>u * real n\<rfloor> < int n"
proof -
  show "0 \<le> \<lfloor>u * real n\<rfloor>"
    using assms by simp
  have "u * real n < 1 * real n"
    using assms by (intro mult_strict_right_mono) simp_all
  then show "\<lfloor>u * real n\<rfloor> < int n"
    by (simp add: floor_less_iff)
qed

lemma pickRandom_Some:
  assumes "0 \<le> u" "u < 1" "arr \<noteq> []"
  shows "pickRandom u arr = Some (arr ! nat \<lfloor>u * real (length arr)\<rfloor>)"
    and "nat \<lfloor>u * real (length arr)\<rfloor> < length arr"
proof -
  have n: "0 < length arr"
    using assms(3) by simp
  note f = floor_index [OF assms(1,2) n]
  from f show "nat \<lfloor>u * real (length arr)\<rfloor> < length arr"
    by (simp only: nat_less_iff)
  from f show "pickRandom u arr = Some (arr ! nat \<lfloor>u * real (length arr)\<rfloor>)"
    unfolding pickRandom_def Let_def by (simp only: if_True simp_thms)
qed

lemma pickRandom_interval:
  assumes "0 \<le> u" "u < 1" "distinct arr" "i < length arr"
  shows "(pickRandom u arr = Some (arr ! i)) =
           (real i / real (length arr) \<le> u \<and> u < (real i + 1) / real (length arr))"
proof -
  have ne: "arr \<noteq> []" and pos: "0 < real (length arr)"
    using assms(4) by auto
  let ?j = "nat \<lfloor>u * real (length arr)\<rfloor>"
  have "(pickRandom u arr = Some (arr ! i)) = (?j = i)"
    using pickRandom_Some [OF assms(1,2) ne] assms(3,4)
    by (simp add: nth_eq_iff_index_eq)
  also have "\<dots> = (\<lfloor>u * real (length arr)\<rfloor> = int i)"
    using floor_index(1) [OF assms(1,2), of "length arr"] ne by auto
  also have "\<dots> = (real i \<le> u * real (length arr) \<and> u * real (length arr) < real i + 1)"
    by (simp add: floor_eq_iff)
  also have "\<dots> = (real i / real (length arr) \<le> u \<and> u < (real i + 1) / real (length arr))"
    using pos by (simp add: pos_divide_le_eq pos_less_divide_eq)
  finally show ?thesis .
qed

lemma RingViewer_again:
  "RingViewer \<lparr>modelPathSlot = Some p, metalKeySlot = Some q\<rparr> rnd k =
     (\<lparr>modelPath = p, metalKey = q, metal = (case q of None \<Rightarrow> None | Some key' \<Rightarrow> map_of METALS key')\<rparr>,
      \<lparr>modelPathSlot = Some p, metalKeySlot = Some q\<rparr>, k + 2)"
  by (simp add: RingViewer_def useRef_def)

lemma RingViewer_first:
  "RingViewer fresh_hooks rnd k =
     (\<lparr>modelPath = pickRandom (rnd k) RING_MODELS,
       metalKey = pickRandom (rnd (k + 1)) METAL_KEYS,
       metal = (case pickRandom (rnd (k + 1)) METAL_KEYS of None \<Rightarrow> None
                | Some key' \<Rightarrow> map_of METALS key')\<rparr>,
      \<lparr>modelPathSlot = Some (pickRandom (rnd k) RING_MODELS),
       metalKeySlot = Some (pickRandom (rnd (k + 1)) METAL_KEYS)\<rparr>, k + 2)"
  by (simp add: RingViewer_def useRef_def fresh_hooks_def)

lemma renders_eq:
  "renders n rnd k =
     (fst (RingViewer fresh_hooks rnd k), fst (snd (RingViewer fresh_hooks rnd k)), k + 2 * (n + 1))"
  by (induction n) (simp_all add: RingViewer_first RingViewer_again)

lemma catalogs: "distinct RING_MODELS" "length RING_MODELS = 10" "distinct METAL_KEYS" "length METAL_KEYS = 3"
  by (simp_all add: RING_MODELS_def METAL_KEYS_def METALS_def)

lemma metal_of_key: "key \<in> set METAL_KEYS \<Longrightarrow> \<exists>preset. map_of METALS key = Some preset"
  by (auto simp: METAL_KEYS_def METALS_def)

text \<open>
  C4, amended. For every mount, whatever the number \<open>n\<close> of re-renders, the render
  yields one model path of the ten-element catalog and one metal key of the three, with
  its preset; the pair is the one the first render drew (the values of \<open>Math.random()\<close>
  at calls \<open>k\<close> and \<open>k + 1\<close>) and so is the same at every re-render; each entry of a
  catalog is selected on an interval of values of equal length (one tenth, one third).
  The draw itself is repeated at every render, two calls of \<open>Math.random()\<close> each time,
  and \<open>useRef\<close> discards the later results.
\<close>

theorem selection_stable:
  assumes "\<forall>j. 0 \<le> rnd j \<and> rnd j < 1"
  shows "\<exists>path key preset.
     fst (renders n rnd k) = \<lparr>modelPath = Some path, metalKey = Some key, metal = Some preset\<rparr> \<and>
     fst (renders n rnd k) = fst (renders 0 rnd k) \<and>
     path \<in> set RING_MODELS \<and> length RING_MODELS = 10 \<and>
     key \<in> set METAL_KEYS \<and> length METAL_KEYS = 3 \<and>
     map_of METALS key = Some preset \<and>
     pickRandom (rnd k) RING_MODELS = Some path \<and>
     pickRandom (rnd (k + 1)) METAL_KEYS = Some key \<and>
     (\<forall>i < 10. (path = RING_MODELS ! i) = (real i / 10 \<le> rnd k \<and> rnd k < (real i + 1) / 10)) \<and>
     (\<forall>i < 3. (key = METAL_KEYS ! i) = (real i / 3 \<le> rnd (k + 1) \<and> rnd (k + 1) < (real i + 1) / 3)) \<and>
     snd (snd (renders n rnd k)) = k + 2 * (n + 1)"
proof -
  have u: "0 \<le> rnd k" "rnd k < 1" and v: "0 \<le> rnd (k + 1)" "rnd (k + 1) < 1"
    using assms by auto
  have ne: "RING_MODELS \<noteq> []" "METAL_KEYS \<noteq> []"
    using catalogs by auto
  define path where "path = RING_MODELS ! nat \<lfloor>rnd k * real (length RING_MODELS)\<rfloor>"
  define key where "key = METAL_KEYS ! nat \<lfloor>rnd (k + 1) * real (length METAL_KEYS)\<rfloor>"
  have p: "pickRandom (rnd k) RING_MODELS = Some path" and pin: "path \<in> set RING_MODELS"
    using pickRandom_Some [OF u ne(1)] by (simp_all add: path_def)
  have q: "pickRandom (rnd (k + 1)) METAL_KEYS = Some key" and qin: "key \<in> set METAL_KEYS"
    using pickRandom_Some [OF v ne(2)] by (simp_all add: key_def)
  obtain preset where m: "map_of METALS key = Some preset"
    using metal_of_key [OF qin] by blast
  have pi: "(path = RING_MODELS ! i) = (real i / 10 \<le> rnd k \<and> rnd k < (real i + 1) / 10)"
    if "i < 10" for i
    using pickRandom_interval [OF u catalogs(1), of i] that unfolding p catalogs by simp
  have qi: "(key = METAL_KEYS ! i) = (real i / 3 \<le> rnd (k + 1) \<and> rnd (k + 1) < (real i + 1) / 3)"
    if "i < 3" for i
    using pickRandom_interval [OF v catalogs(3), of i] that unfolding q catalogs by simp
  show ?thesis
    using p q pin qin m pi qi
    by (intro exI [of _ path] exI [of _ key] exI [of _ preset])
       (simp add: renders_eq RingViewer_first catalogs)
qed

text \<open>
  C4, as stated: each of the two random draws is performed once per mount. After the
  first render and one re-render \<open>Math.random()\<close> has been called four times, while the
  rendered selection is that of the first render.
\<close>

theorem draws_repeated_counterexample:
  "snd (snd (renders 1 example_random 0)) = 4 \<and>
   fst (renders 1 example_random 0) = fst (renders 0 example_random 0)"
  by (simp add: renders_eq)

theorem selection_stable_witness:
  "(\<forall>j. 0 \<le> example_random j \<and> example_random j < 1) \<and>
   modelPath (fst (renders 2 example_random 0)) = Some ''/models/ring3.glb'' \<and>
   metalKey (fst (renders 2 example_random 0)) = Some ''rose'' \<and>
   snd (snd (renders 2 example_random 0)) = 6"
  using selection_stable [of example_random 2 0]
  by (simp add: example_random_def renders_eq RingViewer_first pickRandom_def RING_MODELS_def
        METAL_KEYS_def METALS_def)

end
